theory Spec2Isabelle
  imports Main "HOL-Library.Word"
begin

section \<open>rosserial\_python: the host side of the rosserial wire protocol\<close>

text \<open>
  A shallow embedding of \<^verbatim>\<open>SerialClient.py\<close>. Python integers are \<^typ>\<open>int\<close>,
  a \<^verbatim>\<open>bytes\<close> object is a list of 8-bit words, an exception is a value of
  the type \<open>exn\<close> on the left of a sum.
\<close>

subsection \<open>Bytes and the struct module\<close>

type_synonym byte = "8 word"

datatype exn =
    IOError | StructError | NameError | IndexError | KeyError | ValueError | AttributeError
  | SerialTimeoutException | RuntimeError | ChecksumException | LoadException
  | DeserializeException

text \<open>\<^verbatim>\<open>sum(array.array('B', bs))\<close>: the unbounded sum of the byte values.\<close>

definition byte_sum :: "byte list \<Rightarrow> int" where
  "byte_sum bs = sum_list (map uint bs)"

text \<open>
  \<^verbatim>\<open>struct.pack('<h', n)\<close>: a signed 16-bit integer, low byte first; Python raises
  \<^verbatim>\<open>struct.error\<close> outside \<open>-32768..32767\<close>.
\<close>

definition pack_h :: "int \<Rightarrow> exn + byte list" where
  "pack_h n =
     (if - 32768 \<le> n \<and> n \<le> 32767
      then Inr [word_of_int n, word_of_int (n div 256)]
      else Inl StructError)"

text \<open>\<^verbatim>\<open>struct.pack('B', n)\<close>: one unsigned byte, \<^verbatim>\<open>struct.error\<close> outside \<open>0..255\<close>.\<close>

definition pack_B :: "int \<Rightarrow> exn + byte list" where
  "pack_B n = (if 0 \<le> n \<and> n \<le> 255 then Inr [word_of_int n] else Inl StructError)"

text \<open>\<^verbatim>\<open>struct.unpack('<H', [lo, hi])\<close> and \<^verbatim>\<open>struct.unpack('<h', [lo, hi])\<close>.\<close>

definition unpack_H :: "byte \<Rightarrow> byte \<Rightarrow> int" where
  "unpack_H lo hi = uint lo + 256 * uint hi"

definition unpack_h :: "byte \<Rightarrow> byte \<Rightarrow> int" where
  "unpack_h lo hi =
     (let u = uint lo + 256 * uint hi in if 32768 \<le> u then u - 65536 else u)"

subsection \<open>Class constants of SerialClient\<close>

definition header :: "byte list" where
  "header = [0xFF]"

definition protocol_ver1 :: "byte list" where
  "protocol_ver1 = [0xFF]"

definition protocol_ver2 :: "byte list" where
  "protocol_ver2 = [0xFE]"

definition protocol_ver :: "byte list" where
  "protocol_ver = protocol_ver2"

subsection \<open>Building a frame: the else branch of \_send\<close>

text \<open>
  The bytes that \<^verbatim>\<open>_send\<close> hands to \<^verbatim>\<open>_write\<close>:
  header, version, length (2 bytes), length checksum, topic (2 bytes), message, checksum.
\<close>

definition frame_bytes :: "int \<Rightarrow> byte list \<Rightarrow> exn + byte list" where
  "frame_bytes topic msg_bytes =
     (case pack_h (int (length msg_bytes)) of
        Inl e \<Rightarrow> Inl e
      | Inr length_bytes \<Rightarrow>
     (case pack_B (255 - (byte_sum length_bytes mod 256)) of
        Inl e \<Rightarrow> Inl e
      | Inr length_checksum_bytes \<Rightarrow>
     (case pack_h topic of
        Inl e \<Rightarrow> Inl e
      | Inr topic_bytes \<Rightarrow>
     (case pack_B (255 - (byte_sum (topic_bytes @ msg_bytes) mod 256)) of
        Inl e \<Rightarrow> Inl e
      | Inr msg_checksum_bytes \<Rightarrow>
          Inr (header @ protocol_ver @ length_bytes @ length_checksum_bytes
               @ topic_bytes @ msg_bytes @ msg_checksum_bytes)))))"

subsection \<open>Reading from the port\<close>

text \<open>
  The port is the list of bytes it will still deliver. \<^verbatim>\<open>tryRead(length)\<close> returns
  exactly \<open>length\<close> bytes, or raises IOError: when fewer bytes arrive before the
  timeout (the bytes that did arrive are consumed), and when \<open>length\<close> is negative
  (the remaining count never reaches zero). The second component is the port afterwards.
\<close>

definition tryRead :: "int \<Rightarrow> byte list \<Rightarrow> (exn + byte list) \<times> byte list" where
  "tryRead n port =
     (if n < 0 then (Inl IOError, port)
      else if nat n \<le> length port then (Inr (take (nat n) port), drop (nat n) port)
      else (Inl IOError, []))"

text \<open>
  What one pass through the try block of \<^verbatim>\<open>run\<close> finds on the port. A failed
  read carries the value of \<^verbatim>\<open>read_step\<close>; the failed read of the message data also
  carries \<^verbatim>\<open>msg_length\<close>, which the handler around it logs.
\<close>

datatype decoded =
    NotHeader
  | Mismatched "byte list"
  | WrongLengthChecksum int
  | WrongChecksum
  | Message int "byte list"
  | ReadFailed string
  | DataReadFailed int

definition read_frame :: "byte list \<Rightarrow> decoded \<times> byte list" where
  "read_frame port =
     (case tryRead 1 port of
        (Inl _, p1) \<Rightarrow> (ReadFailed ''syncflag'', p1)
      | (Inr flag0, p1) \<Rightarrow>
     if flag0 \<noteq> header then (NotHeader, p1) else
     (case tryRead 1 p1 of
        (Inl _, p2) \<Rightarrow> (ReadFailed ''protocol'', p2)
      | (Inr flag1, p2) \<Rightarrow>
     if flag1 \<noteq> protocol_ver then (Mismatched flag1, p2) else
     (case tryRead 3 p2 of
        (Inl _, p3) \<Rightarrow> (ReadFailed ''message length'', p3)
      | (Inr msg_len_bytes, p3) \<Rightarrow>
     let msg_length = unpack_h (msg_len_bytes ! 0) (msg_len_bytes ! 1) in
     if byte_sum msg_len_bytes mod 256 \<noteq> 255 then (WrongLengthChecksum msg_length, p3) else
     (case tryRead 2 p3 of
        (Inl _, p4) \<Rightarrow> (ReadFailed ''topic id'', p4)
      | (Inr topic_id_header, p4) \<Rightarrow>
     let topic = unpack_H (topic_id_header ! 0) (topic_id_header ! 1) in
     (case tryRead msg_length p4 of
        (Inl _, p5) \<Rightarrow> (DataReadFailed msg_length, p5)
      | (Inr msg, p5) \<Rightarrow>
     (case tryRead 1 p5 of
        (Inl _, p6) \<Rightarrow> (ReadFailed ''data checksum'', p6)
      | (Inr chk, p6) \<Rightarrow>
     if byte_sum (topic_id_header @ msg @ chk) mod 256 = 255
     then (Message topic msg, p6)
     else (WrongChecksum, p6)))))))"

subsection \<open>Messages and collaborators outside this file\<close>

text \<open>
  Modelled from the spec: the message \<^verbatim>\<open>rosserial_msgs/TopicInfo\<close> is generated code that
  is not part of this file; its fields and their widths are those of the data model
  (\<open>topic_id: u16\<close>, \<open>buffer_size: u32\<close>, three strings).
\<close>

record TopicInfo =
  topic_id :: "16 word"
  topic_name :: string
  message_type :: string
  md5sum :: string
  buffer_size :: "32 word"

text \<open>A message class as \<^verbatim>\<open>load_message\<close> returns it: its \<^verbatim>\<open>_type\<close> and \<^verbatim>\<open>_md5sum\<close>.\<close>

record msg_class =
  cls_type :: string
  cls_md5sum :: string

text \<open>A value of the parameter server, as \<^verbatim>\<open>rospy.get_param\<close> returns it.\<close>

datatype scalar = IntVal int | BoolVal bool | FloatVal "64 word" | StrVal string | OtherVal

datatype param = NoneVal | Single scalar | ListVal "scalar list" | DictVal

datatype pytype = T_int | T_bool | T_float | T_str | T_other

fun type_of :: "scalar \<Rightarrow> pytype" where
  "type_of (IntVal _) = T_int"
| "type_of (BoolVal _) = T_bool"
| "type_of (FloatVal _) = T_float"
| "type_of (StrVal _) = T_str"
| "type_of OtherVal = T_other"

record RequestParamResponse =
  resp_name :: string
  resp_ints :: "scalar list"
  resp_floats :: "scalar list"
  resp_strings :: "scalar list"
  resp_exists :: bool

text \<open>
  The collaborators the file imports: the numeric constants of TopicInfo, the generated
  (de)serializers, the message and service loaders, the parameter server and the services
  of the ROS network. They are parameters of the model. A loader or deserializer that
  raises is \<open>None\<close> (\<open>False\<close> for \<open>deserialize\<close>).
\<close>

record ros =
  ID_PUBLISHER :: int
  ID_SUBSCRIBER :: int
  ID_SERVICE_SERVER :: int
  ID_SERVICE_CLIENT :: int
  ID_PARAMETER_REQUEST :: int
  ID_LOG :: int
  ID_TIME :: int
  deserialize_TopicInfo :: "byte list \<Rightarrow> TopicInfo option"
  load_message :: "string \<Rightarrow> string \<Rightarrow> msg_class option"
  load_service :: "string \<Rightarrow> string \<Rightarrow> (msg_class \<times> msg_class) option"
  deserialize :: "msg_class \<Rightarrow> byte list \<Rightarrow> bool"
  deserialize_RequestParamRequest :: "byte list \<Rightarrow> string option"
  get_param :: "string \<Rightarrow> param option"
  serialize_RequestParamResponse :: "RequestParamResponse \<Rightarrow> byte list option"
  deserialize_Log :: "byte list \<Rightarrow> (int \<times> string) option"
  serialize_Time :: "int \<Rightarrow> byte list"
  service_available :: "string \<Rightarrow> bool"
  service_proxy :: "string \<Rightarrow> byte list \<Rightarrow> byte list option"

text \<open>\<^verbatim>\<open>s.split('/')\<close> of Python.\<close>

fun split_slash :: "string \<Rightarrow> string list" where
  "split_slash [] = [[]]"
| "split_slash (c # cs) =
     (if c = CHR ''/'' then [] # split_slash cs
      else (case split_slash cs of [] \<Rightarrow> [[c]] | w # ws \<Rightarrow> (c # w) # ws))"

subsection \<open>Endpoints\<close>

record publisher =
  pub_topic :: string
  pub_message :: msg_class

record subscriber =
  sub_topic :: string
  sub_id :: "16 word"
  sub_message :: msg_class

datatype service_kind = Server | Client

text \<open>
  A ServiceServer or ServiceClient object. The attribute \<^verbatim>\<open>id\<close> exists only once a
  subscriber half has set it; \<^verbatim>\<open>response\<close> is the last response a ServiceServer stored.
\<close>

record service =
  srv_kind :: service_kind
  srv_topic :: string
  srv_mreq :: msg_class
  srv_mres :: msg_class
  srv_id :: "16 word option"
  srv_response :: "byte list option"

text \<open>
  The values of the dictionary \<^verbatim>\<open>callbacks\<close>: bound methods of the client, of a Publisher,
  or of the service object stored under a name (services are never replaced once stored).
\<close>

datatype handler =
    H_setupPublisher
  | H_setupSubscriber
  | H_setupServiceServerPublisher
  | H_setupServiceServerSubscriber
  | H_setupServiceClientPublisher
  | H_setupServiceClientSubscriber
  | H_handleParameterRequest
  | H_handleLoggingRequest
  | H_handleTimeRequest
  | H_Publisher_handlePacket publisher
  | H_Service_handlePacket string

subsection \<open>The session\<close>

datatype level = DEBUG | INFO | WARN | ERROR | FATAL

datatype arg = AInt int | AStr string | ABytes "byte list" | AExn exn

text \<open>A call of a rospy logger: level, format string, and the values formatted into it.\<close>

type_synonym log_entry = "level \<times> string \<times> arg list"

text \<open>What \<^verbatim>\<open>sendDiagnostics\<close> publishes; \<open>None\<close> for the last sync is the text "never".\<close>

record diagnostic =
  diag_stamp :: int
  diag_name :: string
  diag_level :: level
  diag_message :: string
  diag_last_sync :: "int option"
  diag_last_sync_lost :: int

text \<open>An item of the write queue: ready-made bytes, a (topic, message) tuple, or anything else.\<close>

datatype queue_item = Raw "byte list" | Tuple int "byte list" | Invalid

text \<open>What the session does to the ROS network.\<close>

datatype ros_event =
    NewPublisher string msg_class
  | NewSubscriber string msg_class
  | UnregisterSubscriber string
  | NewService service_kind string
  | Publish string "byte list"

text \<open>
  The attributes of a SerialClient, and with them what the model observes of its
  surroundings: \<open>port_in\<close> is the input the port will still deliver, \<open>wire\<close> the
  arguments of the calls of \<^verbatim>\<open>port.write\<close> that returned, \<open>logged\<close>, \<open>diagnostics\<close> and
  \<open>ros_events\<close> what was logged, published as diagnostics and done to the ROS network,
  \<open>called\<close> the calls \<^verbatim>\<open>self.callbacks[topic_id](msg)\<close> that found a handler.
  \<^verbatim>\<open>rospy.Time.now()\<close> reads \<open>clock\<close> at \<open>ticks\<close> and advances \<open>ticks\<close>, so that
  successive readings are arbitrary. Times and \<open>timeout\<close> are integers in one unit.
\<close>

record session =
  lastsync :: int
  lastsync_lost :: int
  lastsync_success :: int
  last_read :: int
  last_write :: int
  timeout :: int
  synced :: bool
  fix_pyserial_for_test :: bool
  publishers :: "int \<rightharpoonup> publisher"
  subscribers :: "string \<rightharpoonup> subscriber"
  services :: "string \<rightharpoonup> service"
  buffer_out :: int
  buffer_in :: int
  callbacks :: "int \<rightharpoonup> handler"
  write_queue :: "queue_item list"
  port_in :: "byte list"
  wire :: "byte list list"
  logged :: "log_entry list"
  diagnostics :: "diagnostic list"
  ros_events :: "ros_event list"
  called :: "(int \<times> byte list) list"
  clock :: "nat \<Rightarrow> int"
  ticks :: nat

subsection \<open>Logging, the clock and diagnostics\<close>

definition rospy_log :: "level \<Rightarrow> string \<Rightarrow> arg list \<Rightarrow> session \<Rightarrow> session" where
  "rospy_log l fmt args s = s\<lparr>logged := logged s @ [(l, fmt, args)]\<rparr>"

definition Time_now :: "session \<Rightarrow> int \<times> session" where
  "Time_now s = (clock s (ticks s), s\<lparr>ticks := Suc (ticks s)\<rparr>)"

definition ERROR_MISMATCHED_PROTOCOL :: string where
  "ERROR_MISMATCHED_PROTOCOL = ''Mismatched protocol version in packet: lost sync or rosserial_python is from different ros release than the rosserial client''"

definition ERROR_NO_SYNC :: string where
  "ERROR_NO_SYNC = ''no sync with device''"

definition ERROR_PACKET_FAILED :: string where
  "ERROR_PACKET_FAILED = ''Packet Failed : Failed to read msg data''"

definition sendDiagnostics :: "level \<Rightarrow> string \<Rightarrow> session \<Rightarrow> session" where
  "sendDiagnostics lvl msg_text s =
     (case Time_now s of (stamp, s1) \<Rightarrow>
        s1\<lparr>diagnostics := diagnostics s1 @
             [\<lparr>diag_stamp = stamp, diag_name = ''rosserial_python'', diag_level = lvl,
               diag_message = msg_text,
               diag_last_sync = (if lastsync s1 > 0 then Some (lastsync s1) else None),
               diag_last_sync_lost = lastsync_lost s1\<rparr>]\<rparr>)"

subsection \<open>Control frames and the write queue\<close>

text \<open>
  \<^verbatim>\<open>port.flushInput()\<close> discards the input that has arrived and was not read: the first
  \<open>flushed\<close> bytes of \<open>port_in\<close>, a number the surroundings decide (0 for a port
  without flushInput, where the AttributeError is caught).
\<close>

definition flushInput :: "nat \<Rightarrow> session \<Rightarrow> session" where
  "flushInput flushed s =
     (if \<not> fix_pyserial_for_test s then s\<lparr>port_in := drop flushed (port_in s)\<rparr> else s)"

definition request_topics_frame :: "byte list" where
  "request_topics_frame = header @ protocol_ver @ [0x00, 0x00, 0xFF, 0x00, 0x00, 0xFF]"

definition requestTopics :: "nat \<Rightarrow> session \<Rightarrow> session" where
  "requestTopics flushed s =
     (let s1 = rospy_log INFO ''Requesting topics...'' [] s;
          s2 = flushInput flushed s1
      in s2\<lparr>write_queue := write_queue s2 @ [Raw request_topics_frame]\<rparr>)"

definition txStopRequest :: "nat \<Rightarrow> session \<Rightarrow> session" where
  "txStopRequest flushed s =
     (let s1 = flushInput flushed s;
          s2 = s1\<lparr>write_queue := write_queue s1 @
                  [Raw (header @ protocol_ver @ [0x00, 0x00, 0xFF, 0x0B, 0x00, 0xF4])]\<rparr>
      in rospy_log INFO ''Sending tx stop request'' [] s2)"

definition send :: "int \<Rightarrow> byte list \<Rightarrow> session \<Rightarrow> session" where
  "send topic msg s = s\<lparr>write_queue := write_queue s @ [Tuple topic msg]\<rparr>"

subsection \<open>Construction\<close>

text \<open>
  \<^verbatim>\<open>__init__\<close> for a port that is a file-like object. \<open>shutdown\<close> is what
  \<^verbatim>\<open>rospy.is_shutdown()\<close> answers after the port is taken: then the constructor returns
  before the buffers, the callbacks and the request for topics (\<open>None\<close>).
\<close>

definition initial_callbacks :: "ros \<Rightarrow> (int \<rightharpoonup> handler)" where
  "initial_callbacks r =
     (((((((((Map.empty
       (ID_PUBLISHER r \<mapsto> H_setupPublisher))
       (ID_SUBSCRIBER r \<mapsto> H_setupSubscriber))
       (ID_SERVICE_SERVER r + ID_PUBLISHER r \<mapsto> H_setupServiceServerPublisher))
       (ID_SERVICE_SERVER r + ID_SUBSCRIBER r \<mapsto> H_setupServiceServerSubscriber))
       (ID_SERVICE_CLIENT r + ID_PUBLISHER r \<mapsto> H_setupServiceClientPublisher))
       (ID_SERVICE_CLIENT r + ID_SUBSCRIBER r \<mapsto> H_setupServiceClientSubscriber))
       (ID_PARAMETER_REQUEST r \<mapsto> H_handleParameterRequest))
       (ID_LOG r \<mapsto> H_handleLoggingRequest))
       (ID_TIME r \<mapsto> H_handleTimeRequest))"

definition SerialClient_init ::
  "ros \<Rightarrow> byte list \<Rightarrow> (nat \<Rightarrow> int) \<Rightarrow> int \<Rightarrow> bool \<Rightarrow> bool \<Rightarrow> nat \<Rightarrow> session option" where
  "SerialClient_init r port clk tmo fix shutdown flushed =
     (if shutdown then None
      else
        let s0 = \<lparr>lastsync = 0, lastsync_lost = 0, lastsync_success = 0,
                  last_read = 0, last_write = 0, timeout = tmo, synced = False,
                  fix_pyserial_for_test = fix,
                  publishers = Map.empty, subscribers = Map.empty, services = Map.empty,
                  buffer_out = - 1, buffer_in = - 1,
                  callbacks = initial_callbacks r,
                  write_queue = [], port_in = port, wire = [], logged = [],
                  diagnostics = [], ros_events = [], called = [],
                  clock = clk, ticks = 0\<rparr>;
            s1 = requestTopics flushed s0
        in (case Time_now s1 of (t, s2) \<Rightarrow> Some (s2\<lparr>lastsync := t\<rparr>)))"

subsection \<open>Writing\<close>

text \<open>
  What \<^verbatim>\<open>port.write(data)\<close> does: it returns, or raises the given exception
  (SerialTimeoutException, RuntimeError, or another one).
\<close>

datatype write_outcome = Written | WriteRaises exn

text \<open>\<^verbatim>\<open>_write\<close> and \<^verbatim>\<open>_send\<close> return the exception that leaves them, if one does.\<close>

definition private_write :: "write_outcome \<Rightarrow> byte list \<Rightarrow> session \<Rightarrow> exn option \<times> session" where
  "private_write w bytes s =
     (case w of
        WriteRaises e \<Rightarrow> (Some e, s)
      | Written \<Rightarrow>
          (case Time_now (s\<lparr>wire := wire s @ [bytes]\<rparr>) of
             (t, s1) \<Rightarrow> (None, s1\<lparr>last_write := t\<rparr>)))"

text \<open>
  \<^verbatim>\<open>_send(topic, msg_bytes)\<close>. In the branch of the oversize message the argument of
  \<^verbatim>\<open>rospy.logerr\<close> is \<^verbatim>\<open>"..." % msg\<close>, and no name \<^verbatim>\<open>msg\<close> is bound in the function
  (its parameter is \<^verbatim>\<open>msg_bytes\<close>) or in the module: evaluating it raises NameError before
  the logger is called and before \<^verbatim>\<open>return -1\<close>.
\<close>

definition private_send ::
  "write_outcome \<Rightarrow> int \<Rightarrow> byte list \<Rightarrow> session \<Rightarrow> exn option \<times> session" where
  "private_send w topic msg_bytes s =
     (let len = int (length msg_bytes) in
      if buffer_in s > 0 \<and> len > buffer_in s then (Some NameError, s)
      else (case frame_bytes topic msg_bytes of
              Inl e \<Rightarrow> (Some e, s)
            | Inr bytes \<Rightarrow> private_write w bytes s))"

text \<open>The body of the try statement of \<^verbatim>\<open>processWriteQueue\<close>, before its \<^verbatim>\<open>break\<close>.\<close>

definition write_attempt :: "write_outcome \<Rightarrow> queue_item \<Rightarrow> session \<Rightarrow> exn option \<times> session" where
  "write_attempt w item s =
     (case item of
        Tuple topic msg \<Rightarrow> private_send w topic msg s
      | Raw bytes \<Rightarrow> private_write w bytes s
      | Invalid \<Rightarrow> (None, rospy_log ERROR ''Trying to write invalid data type: %s'' [] s))"

text \<open>
  One pass of the outer loop of \<^verbatim>\<open>processWriteQueue\<close>. The inner loop tries the dequeued
  item once for every element of the list of what \<^verbatim>\<open>port.write\<close> does in turn: a write
  timeout is logged and the item is tried again, a RuntimeError is logged and ends the
  item, any other exception leaves the function, which ends the writer thread. When the
  list is used up the inner loop is still trying (\<open>Retrying\<close>).
\<close>

datatype writer_status = WriterExit | Sleeping | ItemDone | ThreadDied exn | Retrying

fun write_item :: "write_outcome list \<Rightarrow> queue_item \<Rightarrow> session \<Rightarrow> writer_status \<times> session" where
  "write_item [] item s = (Retrying, s)"
| "write_item (w # ws) item s =
     (case write_attempt w item s of
        (None, s1) \<Rightarrow> (ItemDone, s1)
      | (Some e, s1) \<Rightarrow>
          if e = SerialTimeoutException
          then write_item ws item (rospy_log ERROR ''Write timeout: %s'' [AExn e] s1)
          else if e = RuntimeError
          then (ItemDone, rospy_log ERROR ''Write thread exception: %s'' [AExn e] s1)
          else (ThreadDied e, s1))"

definition processWriteQueue_step ::
  "bool \<Rightarrow> write_outcome list \<Rightarrow> session \<Rightarrow> writer_status \<times> session" where
  "processWriteQueue_step shutdown ws s =
     (if shutdown then (WriterExit, s)
      else (case write_queue s of
              [] \<Rightarrow> (Sleeping, s)
            | item # rest \<Rightarrow> write_item ws item (s\<lparr>write_queue := rest\<rparr>)))"

subsection \<open>Buffer sizes and the endpoints of TopicInfo messages\<close>

definition setPublishSize :: "int \<Rightarrow> session \<Rightarrow> session" where
  "setPublishSize sz s =
     (if buffer_out s < 0
      then rospy_log INFO ''Note: publish buffer size is %d bytes'' [AInt sz] (s\<lparr>buffer_out := sz\<rparr>)
      else s)"

definition setSubscribeSize :: "int \<Rightarrow> session \<Rightarrow> session" where
  "setSubscribeSize sz s =
     (if buffer_in s < 0
      then rospy_log INFO ''Note: subscribe buffer size is %d bytes'' [AInt sz] (s\<lparr>buffer_in := sz\<rparr>)
      else s)"

text \<open>\<^verbatim>\<open>package, message = topic_info.message_type.split('/')\<close>: exactly two parts, or ValueError.\<close>

definition split_type :: "string \<Rightarrow> exn + string \<times> string" where
  "split_type t =
     (case split_slash t of
        [package, message] \<Rightarrow> Inr (package, message)
      | _ \<Rightarrow> Inl ValueError)"

text \<open>
  The constructors of Publisher and Subscriber: the message class is loaded and its md5sum
  compared with the one of the TopicInfo; the endpoint of the ROS network is made only
  when they agree.
\<close>

definition Publisher_init :: "ros \<Rightarrow> TopicInfo \<Rightarrow> exn + publisher" where
  "Publisher_init r topic_info =
     (case split_type (message_type topic_info) of
        Inl e \<Rightarrow> Inl e
      | Inr (package, message) \<Rightarrow>
          (case load_message r package message of
             None \<Rightarrow> Inl LoadException
           | Some m \<Rightarrow>
               if cls_md5sum m = md5sum topic_info
               then Inr \<lparr>pub_topic = topic_name topic_info, pub_message = m\<rparr>
               else Inl ChecksumException))"

definition Subscriber_init :: "ros \<Rightarrow> TopicInfo \<Rightarrow> exn + subscriber" where
  "Subscriber_init r topic_info =
     (case split_type (message_type topic_info) of
        Inl e \<Rightarrow> Inl e
      | Inr (package, message) \<Rightarrow>
          (case load_message r package message of
             None \<Rightarrow> Inl LoadException
           | Some m \<Rightarrow>
               if cls_md5sum m = md5sum topic_info
               then Inr \<lparr>sub_topic = topic_name topic_info, sub_id = topic_id topic_info,
                         sub_message = m\<rparr>
               else Inl ChecksumException))"

definition Subscriber_unregister :: "subscriber \<Rightarrow> session \<Rightarrow> session" where
  "Subscriber_unregister sub s =
     (let s1 = rospy_log INFO ''Removing subscriber: %s'' [AStr (sub_topic sub)] s
      in s1\<lparr>ros_events := ros_events s1 @ [UnregisterSubscriber (sub_topic sub)]\<rparr>)"

definition setupPublisher :: "ros \<Rightarrow> byte list \<Rightarrow> session \<Rightarrow> session" where
  "setupPublisher r data s =
     (case deserialize_TopicInfo r data of
        None \<Rightarrow> rospy_log ERROR ''Creation of publisher failed: %s'' [AExn DeserializeException] s
      | Some msg \<Rightarrow>
          (case Publisher_init r msg of
             Inl e \<Rightarrow> rospy_log ERROR ''Creation of publisher failed: %s'' [AExn e] s
           | Inr pub \<Rightarrow>
               let s0 = s\<lparr>ros_events := ros_events s
                              @ [NewPublisher (pub_topic pub) (pub_message pub)]\<rparr>;
                   s1 = (if publishers s0 (uint (topic_id msg)) = None
                         then rospy_log INFO ''Setup publisher on %s [%s]''
                                [AStr (topic_name msg), AStr (message_type msg)] s0
                         else s0);
                   s2 = s1\<lparr>publishers := (publishers s1)(uint (topic_id msg) \<mapsto> pub)\<rparr>;
                   s3 = s2\<lparr>callbacks := (callbacks s2)
                              (uint (topic_id msg) \<mapsto> H_Publisher_handlePacket pub)\<rparr>
               in setPublishSize (uint (buffer_size msg)) s3))"

text \<open>The two branches of \<^verbatim>\<open>setupSubscriber\<close> that make a Subscriber and store it.\<close>

definition install_subscriber ::
  "ros \<Rightarrow> TopicInfo \<Rightarrow> string \<Rightarrow> arg list \<Rightarrow> session \<Rightarrow> session" where
  "install_subscriber r msg fmt args s =
     (case Subscriber_init r msg of
        Inl e \<Rightarrow> rospy_log ERROR ''Creation of subscriber failed: %s'' [AExn e] s
      | Inr sub \<Rightarrow>
          let s1 = s\<lparr>ros_events := ros_events s
                         @ [NewSubscriber (sub_topic sub) (sub_message sub)]\<rparr>;
              s2 = s1\<lparr>subscribers := (subscribers s1)(topic_name msg \<mapsto> sub)\<rparr>;
              s3 = setSubscribeSize (uint (buffer_size msg)) s2
          in rospy_log INFO fmt args s3)"

definition setupSubscriber :: "ros \<Rightarrow> byte list \<Rightarrow> session \<Rightarrow> session" where
  "setupSubscriber r data s =
     (case deserialize_TopicInfo r data of
        None \<Rightarrow> rospy_log ERROR ''Creation of subscriber failed: %s'' [AExn DeserializeException] s
      | Some msg \<Rightarrow>
          (case subscribers s (topic_name msg) of
             None \<Rightarrow>
               install_subscriber r msg ''Setup subscriber on %s [%s]''
                 [AStr (topic_name msg), AStr (message_type msg)] s
           | Some old \<Rightarrow>
               if message_type msg \<noteq> cls_type (sub_message old)
               then install_subscriber r msg
                      ''Change the message type of subscriber on %s from [%s] to [%s]''
                      [AStr (topic_name msg), AStr (cls_type (sub_message old)),
                       AStr (message_type msg)]
                      (Subscriber_unregister old s)
               else s))"

subsection \<open>Services\<close>

text \<open>
  How a handler ends: normally, by an exception that leaves it, or never
  (\<^verbatim>\<open>rospy.wait_for_service\<close> in the constructor of ServiceClient has no timeout).
\<close>

datatype completion = Normal | Raised exn | Blocked

definition load_service_classes :: "ros \<Rightarrow> TopicInfo \<Rightarrow> exn + msg_class \<times> msg_class" where
  "load_service_classes r topic_info =
     (case split_type (message_type topic_info) of
        Inl e \<Rightarrow> Inl e
      | Inr (package, service) \<Rightarrow>
          (case load_service r package service of
             None \<Rightarrow> Inl LoadException
           | Some classes \<Rightarrow> Inr classes))"

text \<open>
  \<^verbatim>\<open>srv = self.services[msg.topic_name]\<close>, and on KeyError the constructor of the given
  class, the log line and the store. \<open>None\<close>: the constructor of ServiceClient waits for a
  service that never comes.
\<close>

definition get_service ::
  "service_kind \<Rightarrow> ros \<Rightarrow> TopicInfo \<Rightarrow> session \<Rightarrow> (exn + service \<times> session) option" where
  "get_service kind r msg s =
     (case services s (topic_name msg) of
        Some srv \<Rightarrow> Some (Inr (srv, s))
      | None \<Rightarrow>
          (case load_service_classes r msg of
             Inl e \<Rightarrow> Some (Inl e)
           | Inr (mreq, mres) \<Rightarrow>
               let s0 = (if kind = Client
                         then rospy_log INFO
                                (''Starting service client, waiting for service ''
                                 @ [CHR 0x27] @ topic_name msg @ [CHR 0x27]) [] s
                         else s)
               in
               if kind = Client \<and> \<not> service_available r (topic_name msg) then None
               else
                 let srv = \<lparr>srv_kind = kind, srv_topic = topic_name msg, srv_mreq = mreq,
                            srv_mres = mres, srv_id = None, srv_response = None\<rparr>;
                     s1 = s0\<lparr>ros_events := ros_events s0 @ [NewService kind (topic_name msg)]\<rparr>;
                     s2 = rospy_log INFO
                            (if kind = Server then ''Setup service server on %s [%s]''
                             else ''Setup service client on %s [%s]'')
                            [AStr (topic_name msg), AStr (message_type msg)] s1
                 in Some (Inr (srv, s2\<lparr>services := (services s2)(topic_name msg \<mapsto> srv)\<rparr>))))"

text \<open>
  The four handlers of the service halves differ in the size they set, the class whose
  md5sum they compare, and what they bind: the publisher halves bind the topic id to
  \<^verbatim>\<open>srv.handlePacket\<close>, the subscriber halves set \<^verbatim>\<open>srv.id\<close>.
\<close>

definition bind_handlePacket :: "TopicInfo \<Rightarrow> session \<Rightarrow> session" where
  "bind_handlePacket msg s =
     s\<lparr>callbacks := (callbacks s)(uint (topic_id msg) \<mapsto> H_Service_handlePacket (topic_name msg))\<rparr>"

definition set_service_id :: "TopicInfo \<Rightarrow> service \<Rightarrow> session \<Rightarrow> session" where
  "set_service_id msg srv s =
     s\<lparr>services := (services s)(topic_name msg \<mapsto> srv\<lparr>srv_id := Some (topic_id msg)\<rparr>)\<rparr>"

definition setupServiceServerPublisher :: "ros \<Rightarrow> byte list \<Rightarrow> session \<Rightarrow> completion \<times> session" where
  "setupServiceServerPublisher r data s =
     (case deserialize_TopicInfo r data of
        None \<Rightarrow> (Normal, rospy_log ERROR ''Creation of service server failed: %s''
                           [AExn DeserializeException] s)
      | Some msg \<Rightarrow>
          let s1 = setPublishSize (uint (buffer_size msg)) s in
          (case get_service Server r msg s1 of
             None \<Rightarrow> (Blocked, s1)
           | Some (Inl e) \<Rightarrow>
               (Normal, rospy_log ERROR ''Creation of service server failed: %s'' [AExn e] s1)
           | Some (Inr (srv, s2)) \<Rightarrow>
               if cls_md5sum (srv_mres srv) = md5sum msg
               then (Normal, bind_handlePacket msg s2)
               else (Normal, rospy_log ERROR ''Creation of service server failed: %s''
                               [AExn ChecksumException] s2)))"

definition setupServiceServerSubscriber :: "ros \<Rightarrow> byte list \<Rightarrow> session \<Rightarrow> completion \<times> session" where
  "setupServiceServerSubscriber r data s =
     (case deserialize_TopicInfo r data of
        None \<Rightarrow> (Normal, rospy_log ERROR ''Creation of service server failed: %s''
                           [AExn DeserializeException] s)
      | Some msg \<Rightarrow>
          let s1 = setSubscribeSize (uint (buffer_size msg)) s in
          (case get_service Server r msg s1 of
             None \<Rightarrow> (Blocked, s1)
           | Some (Inl e) \<Rightarrow>
               (Normal, rospy_log ERROR ''Creation of service server failed: %s'' [AExn e] s1)
           | Some (Inr (srv, s2)) \<Rightarrow>
               if cls_md5sum (srv_mreq srv) = md5sum msg
               then (Normal, set_service_id msg srv s2)
               else (Normal, rospy_log ERROR ''Creation of service server failed: %s''
                               [AExn ChecksumException] s2)))"

definition setupServiceClientPublisher :: "ros \<Rightarrow> byte list \<Rightarrow> session \<Rightarrow> completion \<times> session" where
  "setupServiceClientPublisher r data s =
     (case deserialize_TopicInfo r data of
        None \<Rightarrow> (Normal, rospy_log ERROR ''Creation of service client failed: %s''
                           [AExn DeserializeException] s)
      | Some msg \<Rightarrow>
          let s1 = setPublishSize (uint (buffer_size msg)) s in
          (case get_service Client r msg s1 of
             None \<Rightarrow> (Blocked, s1)
           | Some (Inl e) \<Rightarrow>
               (Normal, rospy_log ERROR ''Creation of service client failed: %s'' [AExn e] s1)
           | Some (Inr (srv, s2)) \<Rightarrow>
               if cls_md5sum (srv_mreq srv) = md5sum msg
               then (Normal, bind_handlePacket msg s2)
               else (Normal, rospy_log ERROR ''Creation of service client failed: %s''
                               [AExn ChecksumException] s2)))"

definition setupServiceClientSubscriber :: "ros \<Rightarrow> byte list \<Rightarrow> session \<Rightarrow> completion \<times> session" where
  "setupServiceClientSubscriber r data s =
     (case deserialize_TopicInfo r data of
        None \<Rightarrow> (Normal, rospy_log ERROR ''Creation of service client failed: %s''
                           [AExn DeserializeException] s)
      | Some msg \<Rightarrow>
          let s1 = setSubscribeSize (uint (buffer_size msg)) s in
          (case get_service Client r msg s1 of
             None \<Rightarrow> (Blocked, s1)
           | Some (Inl e) \<Rightarrow>
               (Normal, rospy_log ERROR ''Creation of service client failed: %s'' [AExn e] s1)
           | Some (Inr (srv, s2)) \<Rightarrow>
               if cls_md5sum (srv_mres srv) = md5sum msg
               then (Normal, set_service_id msg srv s2)
               else (Normal, rospy_log ERROR ''Creation of service client failed: %s''
                               [AExn ChecksumException] s2)))"

subsection \<open>Handlers of packets, time, parameters and logging\<close>

definition Publisher_handlePacket :: "ros \<Rightarrow> publisher \<Rightarrow> byte list \<Rightarrow> session \<Rightarrow> session" where
  "Publisher_handlePacket r pub data s =
     (if deserialize r (pub_message pub) data
      then s\<lparr>ros_events := ros_events s @ [Publish (pub_topic pub) data]\<rparr>
      else rospy_log ERROR ''Publisher handling packet failed: %s'' [AExn DeserializeException] s)"

text \<open>
  \<^verbatim>\<open>handlePacket\<close> of the service object stored under a name: a ServiceServer stores the
  response, a ServiceClient calls the service and sends the answer under \<^verbatim>\<open>self.id\<close>,
  an attribute that is missing until a subscriber half has set it.
\<close>

definition Service_handlePacket :: "ros \<Rightarrow> string \<Rightarrow> byte list \<Rightarrow> session \<Rightarrow> session" where
  "Service_handlePacket r name data s =
     (case services s name of
        None \<Rightarrow> s
      | Some srv \<Rightarrow>
          (case srv_kind srv of
             Server \<Rightarrow>
               if deserialize r (srv_mres srv) data
               then s\<lparr>services := (services s)(name \<mapsto> srv\<lparr>srv_response := Some data\<rparr>)\<rparr>
               else rospy_log ERROR ''Service server handling packet failed: %s''
                      [AExn DeserializeException] s
           | Client \<Rightarrow>
               if \<not> deserialize r (srv_mreq srv) data
               then rospy_log ERROR ''Service client handling packet failed: %s''
                      [AExn DeserializeException] s
               else
                 (case service_proxy r (srv_topic srv) data of
                    None \<Rightarrow> rospy_log ERROR ''Service client handling packet failed: %s''
                              [AExn RuntimeError] s
                  | Some resp \<Rightarrow>
                      (case srv_id srv of
                         None \<Rightarrow> rospy_log ERROR ''Service client handling packet failed: %s''
                                   [AExn AttributeError] s
                       | Some i \<Rightarrow> send (uint i) resp s))))"

definition handleTimeRequest :: "ros \<Rightarrow> byte list \<Rightarrow> session \<Rightarrow> session" where
  "handleTimeRequest r data s =
     (case Time_now s of (t, s1) \<Rightarrow>
        (case Time_now (send (ID_TIME r) (serialize_Time r t) s1) of
           (t2, s2) \<Rightarrow> s2\<lparr>lastsync := t2\<rparr>))"

text \<open>
  \<^verbatim>\<open>handleParameterRequest\<close>. A parameter that is the empty list makes \<^verbatim>\<open>param[0]\<close> raise
  IndexError, and a response that does not serialize raises too: neither is caught in the
  handler.
\<close>

definition fill_response ::
  "string \<Rightarrow> scalar list \<Rightarrow> RequestParamResponse \<Rightarrow> session \<Rightarrow> exn + RequestParamResponse \<times> session" where
  "fill_response name ps resp s =
     (case ps of
        [] \<Rightarrow> Inl IndexError
      | p0 # _ \<Rightarrow>
          if \<exists>p \<in> set ps. type_of p0 \<noteq> type_of p
          then Inr (resp, rospy_log ERROR
                      ''All Parameters in the list %s must be of the same type'' [AStr name] s)
          else
            let t = type_of p0;
                r1 = (if t = T_int \<or> t = T_bool then resp\<lparr>resp_ints := ps\<rparr> else resp);
                r2 = (if t = T_float then r1\<lparr>resp_floats := ps\<rparr> else r1);
                r3 = (if t = T_str then r2\<lparr>resp_strings := ps\<rparr> else r2)
            in Inr (r3\<lparr>resp_exists := True\<rparr>,
                    rospy_log INFO ''Requesting param %s'' [AStr name] s))"

definition handleParameterRequest :: "ros \<Rightarrow> byte list \<Rightarrow> session \<Rightarrow> completion \<times> session" where
  "handleParameterRequest r data s =
     (case deserialize_RequestParamRequest r data of
        None \<Rightarrow> (Normal, rospy_log ERROR ''Handle Parameter Request failed: %s''
                           [AExn DeserializeException] s)
      | Some name \<Rightarrow>
          let resp = \<lparr>resp_name = name, resp_ints = [], resp_floats = [], resp_strings = [],
                      resp_exists = False\<rparr>;
              missing = Inr (resp, rospy_log ERROR ''Parameter %s does not exist'' [AStr name] s)
          in
          (case (case get_param r name of
                   None \<Rightarrow> missing
                 | Some NoneVal \<Rightarrow> missing
                 | Some DictVal \<Rightarrow>
                     Inr (resp, rospy_log ERROR
                            ''Cannot send param %s because it is a dictionary'' [AStr name] s)
                 | Some (Single p) \<Rightarrow> fill_response name [p] resp s
                 | Some (ListVal ps) \<Rightarrow> fill_response name ps resp s) of
             Inl e \<Rightarrow> (Raised e, s)
           | Inr (resp1, s1) \<Rightarrow>
               (case serialize_RequestParamResponse r resp1 of
                  None \<Rightarrow> (Raised StructError, s1)
                | Some bytes \<Rightarrow> (Normal, send (ID_PARAMETER_REQUEST r) bytes s1))))"

text \<open>
  Modelled from the spec: the level constants of \<^verbatim>\<open>rosserial_msgs/Log\<close> are not part of
  this file; the interface section gives them as DEBUG(1), INFO(2), WARN(4), ERROR(8),
  FATAL(16).
\<close>

definition Log_level :: "int \<Rightarrow> level option" where
  "Log_level n =
     (if n = 1 then Some DEBUG else if n = 2 then Some INFO else if n = 4 then Some WARN
      else if n = 8 then Some ERROR else if n = 16 then Some FATAL else None)"

definition handleLoggingRequest :: "ros \<Rightarrow> byte list \<Rightarrow> session \<Rightarrow> session" where
  "handleLoggingRequest r data s =
     (case deserialize_Log r data of
        None \<Rightarrow> rospy_log ERROR ''Handling Logging Request failed: %s''
                  [AExn DeserializeException] s
      | Some (lvl, text) \<Rightarrow>
          (case Log_level lvl of
             None \<Rightarrow> s
           | Some l \<Rightarrow> rospy_log l text [] s))"

text \<open>The call \<^verbatim>\<open>self.callbacks[topic_id](msg)\<close> once the handler is found.\<close>

fun call_handler :: "ros \<Rightarrow> handler \<Rightarrow> byte list \<Rightarrow> session \<Rightarrow> completion \<times> session" where
  "call_handler r H_setupPublisher data s = (Normal, setupPublisher r data s)"
| "call_handler r H_setupSubscriber data s = (Normal, setupSubscriber r data s)"
| "call_handler r H_setupServiceServerPublisher data s = setupServiceServerPublisher r data s"
| "call_handler r H_setupServiceServerSubscriber data s = setupServiceServerSubscriber r data s"
| "call_handler r H_setupServiceClientPublisher data s = setupServiceClientPublisher r data s"
| "call_handler r H_setupServiceClientSubscriber data s = setupServiceClientSubscriber r data s"
| "call_handler r H_handleParameterRequest data s = handleParameterRequest r data s"
| "call_handler r H_handleLoggingRequest data s = (Normal, handleLoggingRequest r data s)"
| "call_handler r H_handleTimeRequest data s = (Normal, handleTimeRequest r data s)"
| "call_handler r (H_Publisher_handlePacket pub) data s =
     (Normal, Publisher_handlePacket r pub data s)"
| "call_handler r (H_Service_handlePacket name) data s =
     (Normal, Service_handlePacket r name data s)"

subsection \<open>The reader loop\<close>

text \<open>
  What the surroundings answer during one pass of the loop of \<^verbatim>\<open>run\<close>: whether the
  writer thread is alive, whether rospy is shut down, whether the read lock was acquired
  within its second, what \<^verbatim>\<open>port.inWaiting()\<close> returns, and how many bytes a
  \<^verbatim>\<open>flushInput\<close> discards in the request for topics of the sync check and in the one for
  an unknown topic id.
\<close>

record env =
  thread_alive :: bool
  is_shutdown :: bool
  lock_acquired :: bool
  in_waiting :: int
  flushed_sync :: nat
  flushed_unknown :: nat

text \<open>
  How one pass ends: the loop goes on, a \<^verbatim>\<open>return\<close> statement is reached, the condition
  of the loop is false (the function then joins the writer thread and ends), an exception
  leaves \<^verbatim>\<open>run\<close>, or a handler never comes back.
\<close>

datatype outcome = Continue | Returned | LoopEnded | Propagated exn | Hung

text \<open>The sync check at the head of the loop body; the flag says that it returned.\<close>

definition sync_check :: "nat \<Rightarrow> session \<Rightarrow> bool \<times> session" where
  "sync_check flushed s =
     (case Time_now s of (now, s1) \<Rightarrow>
        if now - lastsync s1 > timeout s1 * 3 then
          if synced s1
          then (True, rospy_log ERROR ''Lost sync with device, restarting NOW...'' [] s1)
          else
            let s2 = rospy_log ERROR ''Unable to sync with device; possible link problem or link software version mismatch such as hydro rosserial_python with groovy Arduino'' [] s1
            in (case Time_now s2 of (t_lost, s3) \<Rightarrow>
                  let s4 = sendDiagnostics ERROR ERROR_NO_SYNC (s3\<lparr>lastsync_lost := t_lost\<rparr>);
                      s5 = requestTopics flushed s4
                  in (case Time_now s5 of (t_sync, s6) \<Rightarrow> (False, s6\<lparr>lastsync := t_sync\<rparr>)))
        else (False, s1))"

text \<open>The handler \<^verbatim>\<open>except IOError as exc\<close> at the end of the loop body.\<close>

definition io_error_return :: "string \<Rightarrow> session \<Rightarrow> outcome \<times> session" where
  "io_error_return read_step s =
     (Returned,
      rospy_log WARN ''Run loop error: %s'' [AExn IOError]
        (rospy_log WARN ''Last read step: %s'' [AStr read_step] s))"

text \<open>The dictionary \<^verbatim>\<open>protocol_ver_msgs\<close> and the two texts made from it.\<close>

definition protocol_ver_msgs :: "byte list \<rightharpoonup> string" where
  "protocol_ver_msgs =
     ((Map.empty
        (protocol_ver1 \<mapsto> ''Rev 0 (rosserial 0.4 and earlier)''))
        (protocol_ver2 \<mapsto> ''Rev 1 (rosserial 0.5+)''))
        ([0xFD] \<mapsto> ''Some future rosserial version'')"

definition found_ver_msg :: "byte list \<Rightarrow> string" where
  "found_ver_msg flag1 =
     (case protocol_ver_msgs flag1 of
        Some m \<Rightarrow> ''Protocol version of client is '' @ m
      | None \<Rightarrow> ''Protocol version of client is unrecognized'')"

definition protocol_mismatch :: "byte list \<Rightarrow> session \<Rightarrow> outcome \<times> session" where
  "protocol_mismatch flag1 s =
     (let s1 = sendDiagnostics ERROR ERROR_MISMATCHED_PROTOCOL s;
          s2 = rospy_log ERROR ''Mismatched protocol version in packet (%s): lost sync or rosserial_python is from different ros release than the rosserial client'' [ABytes flag1] s1
      in (case protocol_ver_msgs protocol_ver of
            None \<Rightarrow> (Propagated KeyError, s2)
          | Some expected \<Rightarrow>
              (Continue, rospy_log INFO ''%s, expected %s''
                           [AStr (found_ver_msg flag1), AStr expected] s2)))"

text \<open>\<^verbatim>\<open>except KeyError\<close> around the call of the handler.\<close>

definition unknown_topic :: "nat \<Rightarrow> int \<Rightarrow> session \<Rightarrow> outcome \<times> session" where
  "unknown_topic flushed topic s =
     (Continue,
      requestTopics flushed
        (rospy_log ERROR ''Tried to publish before configured, topic id %d'' [AInt topic] s))"

definition dispatch :: "ros \<Rightarrow> env \<Rightarrow> int \<Rightarrow> byte list \<Rightarrow> session \<Rightarrow> outcome \<times> session" where
  "dispatch r e topic msg s =
     (case callbacks s topic of
        None \<Rightarrow> unknown_topic (flushed_unknown e) topic s
      | Some h \<Rightarrow>
          (case call_handler r h msg (s\<lparr>called := called s @ [(topic, msg)]\<rparr>) of
             (Normal, s1) \<Rightarrow> (Continue, s1)
           | (Blocked, s1) \<Rightarrow> (Hung, s1)
           | (Raised x, s1) \<Rightarrow>
               if x = KeyError then unknown_topic (flushed_unknown e) topic s1
               else if x = IOError then io_error_return ''data checksum'' s1
               else (Propagated x, s1)))"

text \<open>\<^verbatim>\<open>tryRead\<close> notes the time of the last read that received bytes.\<close>

definition note_read :: "byte list \<Rightarrow> session \<Rightarrow> session" where
  "note_read before s =
     (if length (port_in s) < length before
      then (case Time_now s of (t, s1) \<Rightarrow> s1\<lparr>last_read := t\<rparr>)
      else s)"

text \<open>The try block of the loop body.\<close>

definition read_and_dispatch :: "ros \<Rightarrow> env \<Rightarrow> session \<Rightarrow> outcome \<times> session" where
  "read_and_dispatch r e s =
     (if \<not> lock_acquired e then (Continue, s)
      else if in_waiting e < 1 then (Continue, s)
      else
        (case read_frame (port_in s) of (d, rest) \<Rightarrow>
           let s0 = note_read (port_in s) (s\<lparr>port_in := rest\<rparr>) in
           (case d of
              ReadFailed step \<Rightarrow> io_error_return step s0
            | DataReadFailed n \<Rightarrow>
                io_error_return ''data''
                  (rospy_log INFO ''%s'' [AExn IOError]
                    (rospy_log INFO ''expected msg length is %d'' [AInt n]
                      (rospy_log INFO ''Packet Failed :  Failed to read msg data'' []
                        (sendDiagnostics ERROR ERROR_PACKET_FAILED s0))))
            | NotHeader \<Rightarrow> (Continue, s0)
            | Mismatched flag1 \<Rightarrow> protocol_mismatch flag1 s0
            | WrongLengthChecksum n \<Rightarrow>
                (Continue, rospy_log INFO
                   ''Wrong checksum for msg length, length %d, dropping message.'' [AInt n] s0)
            | WrongChecksum \<Rightarrow>
                (Continue, rospy_log INFO ''wrong checksum for topic id and msg'' [] s0)
            | Message topic msg \<Rightarrow>
                (case Time_now (s0\<lparr>synced := True\<rparr>) of
                   (t, s1) \<Rightarrow> dispatch r e topic msg (s1\<lparr>lastsync_success := t\<rparr>)))))"

text \<open>One pass of the loop: its condition, the sync check, the try block.\<close>

definition run_iter :: "ros \<Rightarrow> env \<Rightarrow> session \<Rightarrow> outcome \<times> session" where
  "run_iter r e s =
     (if \<not> (thread_alive e \<and> \<not> is_shutdown e) then (LoopEnded, s)
      else (case sync_check (flushed_sync e) s of
              (True, s1) \<Rightarrow> (Returned, s1)
            | (False, s1) \<Rightarrow> read_and_dispatch r e s1))"

text \<open>
  The loop, one pass for every element of the list of what the surroundings answer. When
  the list is used up and no pass has ended the loop, it is still running (\<open>Continue\<close>).
\<close>

fun run :: "ros \<Rightarrow> env list \<Rightarrow> session \<Rightarrow> outcome \<times> session" where
  "run r [] s = (Continue, s)"
| "run r (e # es) s =
     (case run_iter r e s of
        (out, s1) \<Rightarrow> if out = Continue then run r es s1 else (out, s1))"

subsection \<open>The operations of a session\<close>

text \<open>
  What can happen to a session once it is constructed: a pass of the reader loop, a
  request for topics, the stop request of the shutdown hook, a message queued by a
  callback of the ROS network, a pass of the writer loop, and a handler called alone.
\<close>

datatype operation =
    Op_run_iter env
  | Op_requestTopics nat
  | Op_txStopRequest nat
  | Op_send int "byte list"
  | Op_processWriteQueue bool "write_outcome list"
  | Op_handler handler "byte list"

fun apply_operation :: "ros \<Rightarrow> operation \<Rightarrow> session \<Rightarrow> session" where
  "apply_operation r (Op_run_iter e) s = snd (run_iter r e s)"
| "apply_operation r (Op_requestTopics n) s = requestTopics n s"
| "apply_operation r (Op_txStopRequest n) s = txStopRequest n s"
| "apply_operation r (Op_send topic msg) s = send topic msg s"
| "apply_operation r (Op_processWriteQueue shutdown ws) s = snd (processWriteQueue_step shutdown ws s)"
| "apply_operation r (Op_handler h data) s = snd (call_handler r h data s)"

text \<open>The six handlers that install an endpoint from a TopicInfo.\<close>

definition install_handlers :: "handler list" where
  "install_handlers =
     [H_setupPublisher, H_setupSubscriber,
      H_setupServiceServerPublisher, H_setupServiceServerSubscriber,
      H_setupServiceClientPublisher, H_setupServiceClientSubscriber]"

subsection \<open>A sample session\<close>

text \<open>
  Concrete surroundings on which the theorems below are run: two message classes, four
  TopicInfo messages that a one-byte payload selects, a clock that counts, and sample
  values for the numeric constants of TopicInfo.
\<close>

definition String_class :: msg_class where
  "String_class = \<lparr>cls_type = ''std_msgs/String'', cls_md5sum = ''992ce8a1''\<rparr>"

definition Int32_class :: msg_class where
  "Int32_class = \<lparr>cls_type = ''std_msgs/Int32'', cls_md5sum = ''da5909fb''\<rparr>"

definition sample_load_message :: "string \<Rightarrow> string \<Rightarrow> msg_class option" where
  "sample_load_message package message =
     (if package = ''std_msgs'' \<and> message = ''String'' then Some String_class
      else if package = ''std_msgs'' \<and> message = ''Int32'' then Some Int32_class
      else None)"

definition chatter_String :: TopicInfo where
  "chatter_String = \<lparr>topic_id = 125, topic_name = ''chatter'',
     message_type = ''std_msgs/String'', md5sum = ''992ce8a1'', buffer_size = 512\<rparr>"

definition chatter_String_again :: TopicInfo where
  "chatter_String_again = \<lparr>topic_id = 125, topic_name = ''chatter'',
     message_type = ''std_msgs/String'', md5sum = ''992ce8a1'', buffer_size = 280\<rparr>"

definition chatter_Int32 :: TopicInfo where
  "chatter_Int32 = \<lparr>topic_id = 125, topic_name = ''chatter'',
     message_type = ''std_msgs/Int32'', md5sum = ''da5909fb'', buffer_size = 280\<rparr>"

definition chatter_bad_md5 :: TopicInfo where
  "chatter_bad_md5 = \<lparr>topic_id = 125, topic_name = ''chatter'',
     message_type = ''std_msgs/String'', md5sum = ''00000000'', buffer_size = 512\<rparr>"

definition sample_deserialize_TopicInfo :: "byte list \<Rightarrow> TopicInfo option" where
  "sample_deserialize_TopicInfo data =
     (if data = [1] then Some chatter_String
      else if data = [2] then Some chatter_String_again
      else if data = [3] then Some chatter_Int32
      else if data = [4] then Some chatter_bad_md5
      else None)"

definition sample_ros :: ros where
  "sample_ros =
     \<lparr>ID_PUBLISHER = 10, ID_SUBSCRIBER = 11, ID_SERVICE_SERVER = 2, ID_SERVICE_CLIENT = 4,
      ID_PARAMETER_REQUEST = 6, ID_LOG = 7, ID_TIME = 9,
      deserialize_TopicInfo = sample_deserialize_TopicInfo,
      load_message = sample_load_message,
      load_service = (\<lambda>package service. None),
      deserialize = (\<lambda>cls data. True),
      deserialize_RequestParamRequest = (\<lambda>data. None),
      get_param = (\<lambda>name. None),
      serialize_RequestParamResponse = (\<lambda>resp. Some []),
      deserialize_Log = (\<lambda>data. None),
      serialize_Time = (\<lambda>t. [0, 0, 0, 0, 0, 0, 0, 0]),
      service_available = (\<lambda>name. True),
      service_proxy = (\<lambda>name data. None)\<rparr>"

text \<open>
  The session that the constructor returns on a port that delivers the given bytes, with a
  timeout of 5 units and a clock that reads 100, 101, 102 and so on.
\<close>

definition sample_session :: "byte list \<Rightarrow> session" where
  "sample_session port =
     the (SerialClient_init sample_ros port (\<lambda>n. 100 + int n) 5 False False 0)"

definition sample_env :: env where
  "sample_env = \<lparr>thread_alive = True, is_shutdown = False, lock_acquired = True,
                  in_waiting = 1, flushed_sync = 0, flushed_unknown = 0\<rparr>"

subsection \<open>Relations between two states of a session\<close>

text \<open>
  \<open>frame_in port t p\<close>: somewhere in the bytes \<open>port\<close> stands a frame of the data
  model with topic id \<open>t\<close> and payload \<open>p\<close>, both of whose checksums validate.
  \<open>kept\<close> lists what no handler changes, \<open>advances\<close> what no pass of the reader loop
  undoes.
\<close>

definition frame_in :: "byte list \<Rightarrow> int \<Rightarrow> byte list \<Rightarrow> bool" where
  "frame_in port t p \<longleftrightarrow>
     (\<exists>pre l0 l1 cl t0 t1 cp post.
        port = pre @ [0xFF, 0xFE, l0, l1, cl, t0, t1] @ p @ [cp] @ post
      \<and> (uint l0 + uint l1 + uint cl) mod 256 = 255
      \<and> (uint t0 + uint t1 + byte_sum p + uint cp) mod 256 = 255
      \<and> int (length p) = uint l0 + 256 * uint l1
      \<and> t = uint t0 + 256 * uint t1)"

definition kept :: "session \<Rightarrow> session \<Rightarrow> bool" where
  "kept s s' \<longleftrightarrow>
     synced s' = synced s \<and> port_in s' = port_in s \<and> called s' = called s
     \<and> (0 \<le> buffer_out s \<longrightarrow> buffer_out s' = buffer_out s)
     \<and> (0 \<le> buffer_in s \<longrightarrow> buffer_in s' = buffer_in s)"

definition advances :: "session \<Rightarrow> session \<Rightarrow> bool" where
  "advances s s' \<longleftrightarrow>
     (synced s \<longrightarrow> synced s')
     \<and> (\<exists>pre. port_in s = pre @ port_in s')
     \<and> (\<exists>new. called s' = called s @ new \<and> (\<forall>c \<in> set new. frame_in (port_in s) (fst c) (snd c)))
     \<and> (0 \<le> buffer_out s \<longrightarrow> buffer_out s' = buffer_out s)
     \<and> (0 \<le> buffer_in s \<longrightarrow> buffer_in s' = buffer_in s)"

section \<open>Properties of the codec\<close>

subsection \<open>Arithmetic of bytes and checksums\<close>

lemma checksum_complement: "(s + (255 - s mod 256)) mod 256 = (255::int)"
proof -
  have "s = s div 256 * 256 + s mod 256" by simp
  then have "s + (255 - s mod 256) = 255 + s div 256 * 256" by linarith
  then have "(s + (255 - s mod 256)) mod 256 = (255 + s div 256 * 256) mod 256"
    by (rule arg_cong)
  also have "\<dots> = 255" by (simp only: mod_mult_self1) simp
  finally show ?thesis .
qed

lemma uint_low_byte: "uint (word_of_int n :: byte) = n mod 256"
  by (simp add: uint_word_of_int)

lemma high_byte_range: "0 \<le> n \<Longrightarrow> n \<le> 32767 \<Longrightarrow> 0 \<le> n div 256 \<and> n div 256 < (256::int)"
  by (simp add: div_int_pos_iff)

lemma uint_high_byte:
  "0 \<le> n \<Longrightarrow> n \<le> 32767 \<Longrightarrow> uint (word_of_int (n div 256) :: byte) = n div 256"
  using high_byte_range[of n] by (simp add: uint_word_of_int take_bit_int_eq_self)

lemma low_high_bytes:
  "0 \<le> n \<Longrightarrow> n \<le> 32767 \<Longrightarrow>
   uint (word_of_int n :: byte) + 256 * uint (word_of_int (n div 256) :: byte) = n"
  by (simp only: uint_low_byte uint_high_byte) simp

lemma unpack_h_pack:
  "0 \<le> n \<Longrightarrow> n \<le> 32767 \<Longrightarrow> unpack_h (word_of_int n) (word_of_int (n div 256)) = n"
  by (simp only: unpack_h_def low_high_bytes Let_def) simp

lemma unpack_H_pack:
  "0 \<le> n \<Longrightarrow> n \<le> 32767 \<Longrightarrow> unpack_H (word_of_int n) (word_of_int (n div 256)) = n"
  by (simp only: unpack_H_def low_high_bytes)

lemma uint_checksum_byte: "uint (word_of_int (255 - s mod 256) :: byte) = 255 - s mod 256"
proof -
  have "0 \<le> s mod 256" "s mod 256 < 256" by simp_all
  then have "0 \<le> 255 - s mod 256" "255 - s mod 256 < 256" by linarith+
  then have "(255 - s mod 256) mod 256 = 255 - s mod 256" by (rule mod_pos_pos_trivial)
  then show ?thesis by (simp only: uint_low_byte)
qed

lemma tryRead_append:
  "0 \<le> n \<Longrightarrow> nat n = length xs \<Longrightarrow> tryRead n (xs @ ys) = (Inr xs, ys)"
  by (simp add: tryRead_def)

lemma tryRead_Inr:
  "tryRead n port = (Inr xs, rest) \<Longrightarrow> 0 \<le> n \<and> length xs = nat n \<and> port = xs @ rest"
  by (auto simp: tryRead_def split: if_splits)

lemma length_one: "length xs = nat 1 \<Longrightarrow> \<exists>a. xs = [a]"
  by (cases xs) auto

lemma length_two: "length xs = nat 2 \<Longrightarrow> \<exists>a b. xs = [a, b]"
  by (cases xs; cases "tl xs") auto

lemma length_three: "length xs = nat 3 \<Longrightarrow> \<exists>a b c. xs = [a, b, c]"
  by (cases xs; cases "tl xs"; cases "tl (tl xs)") auto

subsection \<open>The encoder, and the decoder on what it wrote\<close>

lemma frame_bytes_ok:
  assumes "0 \<le> topic" "topic \<le> 32767" "length p \<le> 32767"
  shows "frame_bytes topic p =
     Inr ([0xFF, 0xFE, word_of_int (int (length p)), word_of_int (int (length p) div 256),
           word_of_int (255 - (byte_sum [word_of_int (int (length p)),
                                         word_of_int (int (length p) div 256)] mod 256)),
           word_of_int topic, word_of_int (topic div 256)] @ p @
          [word_of_int (255 - (byte_sum ([word_of_int topic, word_of_int (topic div 256)] @ p)
                               mod 256))])"
proof -
  have a: "0 \<le> 255 - byte_sum bs mod 256 \<and> 255 - byte_sum bs mod 256 \<le> 255" for bs
  proof -
    have "0 \<le> byte_sum bs mod 256" "byte_sum bs mod 256 < 256" by simp_all
    then show ?thesis by linarith
  qed
  show ?thesis
    using assms a
    by (simp add: frame_bytes_def pack_h_def pack_B_def header_def protocol_ver_def
        protocol_ver2_def)
qed

lemma read_frame_ok:
  assumes hd: "tryRead 1 port = (Inr [0xFF], p1)"
      and pv: "tryRead 1 p1 = (Inr [0xFE], p2)"
      and ln: "tryRead 3 p2 = (Inr [l0, l1, cl], p3)"
      and lc: "byte_sum [l0, l1, cl] mod 256 = 255"
      and tp: "tryRead 2 p3 = (Inr [t0, t1], p4)"
      and da: "tryRead (unpack_h l0 l1) p4 = (Inr msg, p5)"
      and ck: "tryRead 1 p5 = (Inr [cp], p6)"
      and cc: "byte_sum ([t0, t1] @ msg @ [cp]) mod 256 = 255"
  shows "read_frame port = (Message (unpack_H t0 t1) msg, p6)"
  unfolding read_frame_def
  by (simp add: hd pv ln lc tp da ck cc header_def protocol_ver_def protocol_ver2_def
      del: append.simps)

lemma frame_roundtrip:
  assumes "0 \<le> topic" "topic \<le> 32767" "length p \<le> 32767"
  shows "\<exists>bs. frame_bytes topic p = Inr bs \<and> read_frame (bs @ rest) = (Message topic p, rest)"
proof -
  let ?n = "int (length p)"
  let ?l0 = "word_of_int ?n :: byte" let ?l1 = "word_of_int (?n div 256) :: byte"
  let ?t0 = "word_of_int topic :: byte" let ?t1 = "word_of_int (topic div 256) :: byte"
  let ?cl = "word_of_int (255 - (byte_sum [?l0, ?l1] mod 256)) :: byte"
  let ?cp = "word_of_int (255 - (byte_sum ([?t0, ?t1] @ p) mod 256)) :: byte"
  let ?bs = "[0xFF, 0xFE, ?l0, ?l1, ?cl, ?t0, ?t1] @ p @ [?cp]"
  have enc: "frame_bytes topic p = Inr ?bs"
    using assms by (rule frame_bytes_ok)
  have ucl: "uint ?cl = 255 - (byte_sum [?l0, ?l1] mod 256)"
    by (rule uint_checksum_byte)
  have ucp: "uint ?cp = 255 - (byte_sum ([?t0, ?t1] @ p) mod 256)"
    by (rule uint_checksum_byte)
  have "byte_sum [?l0, ?l1, ?cl] = byte_sum [?l0, ?l1] + uint ?cl"
    by (simp add: byte_sum_def)
  then have c1: "byte_sum [?l0, ?l1, ?cl] mod 256 = 255"
    by (simp only: ucl checksum_complement)
  have "byte_sum ([?t0, ?t1] @ p @ [?cp]) = byte_sum ([?t0, ?t1] @ p) + uint ?cp"
    by (simp add: byte_sum_def)
  then have c2: "byte_sum ([?t0, ?t1] @ p @ [?cp]) mod 256 = 255"
    by (simp only: ucp checksum_complement)
  have ul: "unpack_h ?l0 ?l1 = ?n"
    using assms by (intro unpack_h_pack) simp_all
  have ut: "unpack_H ?t0 ?t1 = topic"
    using assms by (intro unpack_H_pack)
  have r5: "tryRead (unpack_h ?l0 ?l1) (p @ [?cp] @ rest) = (Inr p, [?cp] @ rest)"
    unfolding ul by (rule tryRead_append) simp_all
  have "read_frame (?bs @ rest) = (Message (unpack_H ?t0 ?t1) p, rest)"
  proof (rule read_frame_ok)
    show "tryRead 1 (?bs @ rest) = (Inr [255], [0xFE, ?l0, ?l1, ?cl, ?t0, ?t1] @ p @ [?cp] @ rest)"
      by (simp add: tryRead_def)
    show "tryRead 1 ([0xFE, ?l0, ?l1, ?cl, ?t0, ?t1] @ p @ [?cp] @ rest)
          = (Inr [254], [?l0, ?l1, ?cl, ?t0, ?t1] @ p @ [?cp] @ rest)"
      by (simp add: tryRead_def)
    show "tryRead 3 ([?l0, ?l1, ?cl, ?t0, ?t1] @ p @ [?cp] @ rest)
          = (Inr [?l0, ?l1, ?cl], [?t0, ?t1] @ p @ [?cp] @ rest)"
      by (simp add: tryRead_def)
    show "byte_sum [?l0, ?l1, ?cl] mod 256 = 255" by (rule c1)
    show "tryRead 2 ([?t0, ?t1] @ p @ [?cp] @ rest) = (Inr [?t0, ?t1], p @ [?cp] @ rest)"
      by (simp add: tryRead_def)
    show "tryRead (unpack_h ?l0 ?l1) (p @ [?cp] @ rest) = (Inr p, [?cp] @ rest)" by (rule r5)
    show "tryRead 1 ([?cp] @ rest) = (Inr [?cp], rest)"
      by (simp add: tryRead_def)
    show "byte_sum ([?t0, ?t1] @ p @ [?cp]) mod 256 = 255" by (rule c2)
  qed
  then have dec: "read_frame (?bs @ rest) = (Message topic p, rest)"
    by (simp only: ut)
  show ?thesis using enc dec by blast
qed

lemma read_frame_Message:
  assumes "read_frame port = (Message t msg, rest)"
  shows "\<exists>l0 l1 cl t0 t1 cp.
           port = [0xFF, 0xFE, l0, l1, cl, t0, t1] @ msg @ [cp] @ rest
         \<and> byte_sum [l0, l1, cl] mod 256 = 255
         \<and> byte_sum ([t0, t1] @ msg @ [cp]) mod 256 = 255
         \<and> int (length msg) = unpack_h l0 l1
         \<and> t = unpack_H t0 t1"
proof -
  from assms obtain f0 p1 f1 p2 lb p3 tb p4 cb p5 where
    r1: "tryRead 1 port = (Inr f0, p1)" and h: "f0 = header" and
    r2: "tryRead 1 p1 = (Inr f1, p2)" and v: "f1 = protocol_ver" and
    r3: "tryRead 3 p2 = (Inr lb, p3)" and c1: "byte_sum lb mod 256 = 255" and
    r4: "tryRead 2 p3 = (Inr tb, p4)" and
    r5: "tryRead (unpack_h (lb ! 0) (lb ! 1)) p4 = (Inr msg, p5)" and
    r6: "tryRead 1 p5 = (Inr cb, rest)" and c2: "byte_sum (tb @ msg @ cb) mod 256 = 255" and
    tt: "t = unpack_H (tb ! 0) (tb ! 1)"
    unfolding read_frame_def
    by (auto simp: Let_def split: prod.splits sum.splits if_splits)
  from tryRead_Inr[OF r1] h have e1: "port = [0xFF] @ p1" by (simp add: header_def)
  from tryRead_Inr[OF r2] v have e2: "p1 = [0xFE] @ p2"
    by (simp add: protocol_ver_def protocol_ver2_def)
  from tryRead_Inr[OF r3] length_three[of lb] obtain l0 l1 cl
    where lb: "lb = [l0, l1, cl]" and e3: "p2 = lb @ p3" by auto
  from tryRead_Inr[OF r4] length_two[of tb] obtain t0 t1
    where tb: "tb = [t0, t1]" and e4: "p3 = tb @ p4" by auto
  from tryRead_Inr[OF r5] have e5: "p4 = msg @ p5"
    and ln: "0 \<le> unpack_h (lb ! 0) (lb ! 1)" "length msg = nat (unpack_h (lb ! 0) (lb ! 1))"
    by auto
  from tryRead_Inr[OF r6] length_one[of cb] obtain cp
    where cb: "cb = [cp]" and e6: "p5 = cb @ rest" by auto
  have "port = [0xFF, 0xFE, l0, l1, cl, t0, t1] @ msg @ [cp] @ rest"
    by (simp add: e1 e2 e3 e4 e5 e6 lb tb cb)
  moreover have "byte_sum [l0, l1, cl] mod 256 = 255" using c1 lb by simp
  moreover have "byte_sum ([t0, t1] @ msg @ [cp]) mod 256 = 255" using c2 tb cb by simp
  moreover have "int (length msg) = unpack_h l0 l1" using ln lb by simp
  moreover have "t = unpack_H t0 t1" using tt tb by simp
  ultimately show ?thesis by blast
qed

subsection \<open>The frame of topic 42\<close>

text \<open>
  Claim C1, as the specification states it: encoding \<open>(42, [1, 2, 3])\<close> gives the eight
  bytes \<open>FF FE 03 00 FC 2A 00 30\<close>, and decoding those gives \<open>(42, [1, 2, 3])\<close> back.
  Neither holds: the encoder writes eleven bytes, with the message in them and the checksum
  \<open>CF\<close>, and on the eight bytes of the specification the decoder reads a length of 3, finds
  one byte where it wants three and fails in the step \<^verbatim>\<open>data\<close>.
\<close>

theorem C1_spec_bytes_refuted:
  "frame_bytes 42 [0x01, 0x02, 0x03] \<noteq> Inr [0xFF, 0xFE, 0x03, 0x00, 0xFC, 0x2A, 0x00, 0x30]
   \<and> read_frame [0xFF, 0xFE, 0x03, 0x00, 0xFC, 0x2A, 0x00, 0x30] = (DataReadFailed 3, [])"
  by (simp add: frame_bytes_def pack_h_def pack_B_def byte_sum_def header_def
      protocol_ver_def protocol_ver2_def read_frame_def tryRead_def unpack_h_def unpack_H_def)

text \<open>
  Claim C1, amended: encoding \<open>(42, [1, 2, 3])\<close> gives exactly the bytes
  \<open>FF FE 03 00 FC 2A 00 01 02 03 CF\<close>, and decoding those gives \<open>(42, [1, 2, 3])\<close> back
  and leaves nothing on the port.
\<close>

theorem C1_frame_42:
  "frame_bytes 42 [0x01, 0x02, 0x03]
     = Inr [0xFF, 0xFE, 0x03, 0x00, 0xFC, 0x2A, 0x00, 0x01, 0x02, 0x03, 0xCF]
   \<and> read_frame [0xFF, 0xFE, 0x03, 0x00, 0xFC, 0x2A, 0x00, 0x01, 0x02, 0x03, 0xCF]
     = (Message 42 [0x01, 0x02, 0x03], [])"
  by (simp add: frame_bytes_def pack_h_def pack_B_def byte_sum_def header_def
      protocol_ver_def protocol_ver2_def read_frame_def tryRead_def unpack_h_def unpack_H_def)

section \<open>Properties of the session\<close>

subsection \<open>What the operations leave alone\<close>


lemma rospy_log_fields [simp]:
  "synced (rospy_log l f a s) = synced s"
  "buffer_out (rospy_log l f a s) = buffer_out s"
  "buffer_in (rospy_log l f a s) = buffer_in s"
  "port_in (rospy_log l f a s) = port_in s"
  "called (rospy_log l f a s) = called s"
  by (simp_all add: rospy_log_def)

lemma Time_now_fields [simp]:
  "synced (snd (Time_now s)) = synced s"
  "buffer_out (snd (Time_now s)) = buffer_out s"
  "buffer_in (snd (Time_now s)) = buffer_in s"
  "port_in (snd (Time_now s)) = port_in s"
  "called (snd (Time_now s)) = called s"
  by (simp_all add: Time_now_def)

lemma sendDiagnostics_fields [simp]:
  "synced (sendDiagnostics l m s) = synced s"
  "buffer_out (sendDiagnostics l m s) = buffer_out s"
  "buffer_in (sendDiagnostics l m s) = buffer_in s"
  "port_in (sendDiagnostics l m s) = port_in s"
  "called (sendDiagnostics l m s) = called s"
  by (simp_all add: sendDiagnostics_def Time_now_def)

lemma send_fields [simp]:
  "synced (send t m s) = synced s"
  "buffer_out (send t m s) = buffer_out s"
  "buffer_in (send t m s) = buffer_in s"
  "port_in (send t m s) = port_in s"
  "called (send t m s) = called s"
  by (simp_all add: send_def)

lemma requestTopics_fields [simp]:
  "synced (requestTopics n s) = synced s"
  "buffer_out (requestTopics n s) = buffer_out s"
  "buffer_in (requestTopics n s) = buffer_in s"
  "called (requestTopics n s) = called s"
  by (simp_all add: requestTopics_def flushInput_def Let_def)

lemma txStopRequest_fields [simp]:
  "synced (txStopRequest n s) = synced s"
  "buffer_out (txStopRequest n s) = buffer_out s"
  "buffer_in (txStopRequest n s) = buffer_in s"
  "called (txStopRequest n s) = called s"
  by (simp_all add: txStopRequest_def flushInput_def Let_def)

lemma setPublishSize_fields [simp]:
  "synced (setPublishSize n s) = synced s"
  "buffer_in (setPublishSize n s) = buffer_in s"
  "port_in (setPublishSize n s) = port_in s"
  "called (setPublishSize n s) = called s"
  by (simp_all add: setPublishSize_def)

lemma setSubscribeSize_fields [simp]:
  "synced (setSubscribeSize n s) = synced s"
  "buffer_out (setSubscribeSize n s) = buffer_out s"
  "port_in (setSubscribeSize n s) = port_in s"
  "called (setSubscribeSize n s) = called s"
  by (simp_all add: setSubscribeSize_def)

lemma setPublishSize_fixed [simp]: "0 \<le> buffer_out s \<Longrightarrow> setPublishSize n s = s"
  by (simp add: setPublishSize_def)

lemma setSubscribeSize_fixed [simp]: "0 \<le> buffer_in s \<Longrightarrow> setSubscribeSize n s = s"
  by (simp add: setSubscribeSize_def)

lemma setupPublisher_fields [simp]:
  "synced (setupPublisher r d s) = synced s"
  "buffer_in (setupPublisher r d s) = buffer_in s"
  "port_in (setupPublisher r d s) = port_in s"
  "called (setupPublisher r d s) = called s"
  by (simp_all add: setupPublisher_def Let_def split: option.splits sum.splits)

lemma setupPublisher_out: "0 \<le> buffer_out s \<Longrightarrow> buffer_out (setupPublisher r d s) = buffer_out s"
  by (simp add: setupPublisher_def Let_def setPublishSize_def split: option.splits sum.splits)

lemma Subscriber_unregister_fields [simp]:
  "synced (Subscriber_unregister u s) = synced s"
  "buffer_out (Subscriber_unregister u s) = buffer_out s"
  "buffer_in (Subscriber_unregister u s) = buffer_in s"
  "port_in (Subscriber_unregister u s) = port_in s"
  "called (Subscriber_unregister u s) = called s"
  by (simp_all add: Subscriber_unregister_def Let_def)

lemma install_subscriber_fields [simp]:
  "synced (install_subscriber r m f a s) = synced s"
  "buffer_out (install_subscriber r m f a s) = buffer_out s"
  "port_in (install_subscriber r m f a s) = port_in s"
  "called (install_subscriber r m f a s) = called s"
  by (simp_all add: install_subscriber_def Let_def split: sum.splits)

lemma install_subscriber_in: "0 \<le> buffer_in s \<Longrightarrow> buffer_in (install_subscriber r m f a s) = buffer_in s"
  by (simp add: install_subscriber_def Let_def setSubscribeSize_def split: sum.splits)

lemma setupSubscriber_fields [simp]:
  "synced (setupSubscriber r d s) = synced s"
  "buffer_out (setupSubscriber r d s) = buffer_out s"
  "port_in (setupSubscriber r d s) = port_in s"
  "called (setupSubscriber r d s) = called s"
  by (simp_all add: setupSubscriber_def Let_def split: option.splits)

lemma setupSubscriber_in: "0 \<le> buffer_in s \<Longrightarrow> buffer_in (setupSubscriber r d s) = buffer_in s"
  by (simp add: setupSubscriber_def install_subscriber_in split: option.splits)


lemma get_service_fields:
  "get_service k r m s = Some (Inr (srv, s')) \<Longrightarrow>
     synced s' = synced s \<and> buffer_out s' = buffer_out s \<and> buffer_in s' = buffer_in s
     \<and> port_in s' = port_in s \<and> called s' = called s"
  by (auto simp: get_service_def Let_def split: option.splits sum.splits if_splits)

lemma bind_handlePacket_fields [simp]:
  "synced (bind_handlePacket m s) = synced s"
  "buffer_out (bind_handlePacket m s) = buffer_out s"
  "buffer_in (bind_handlePacket m s) = buffer_in s"
  "port_in (bind_handlePacket m s) = port_in s"
  "called (bind_handlePacket m s) = called s"
  by (simp_all add: bind_handlePacket_def)

lemma set_service_id_fields [simp]:
  "synced (set_service_id m v s) = synced s"
  "buffer_out (set_service_id m v s) = buffer_out s"
  "buffer_in (set_service_id m v s) = buffer_in s"
  "port_in (set_service_id m v s) = port_in s"
  "called (set_service_id m v s) = called s"
  by (simp_all add: set_service_id_def)

lemma kept_setupServiceServerPublisher: "kept s (snd (setupServiceServerPublisher r d s))"
  by (auto simp: kept_def setupServiceServerPublisher_def Let_def setPublishSize_def
      dest!: get_service_fields split: option.splits sum.splits)

lemma kept_setupServiceServerSubscriber: "kept s (snd (setupServiceServerSubscriber r d s))"
  by (auto simp: kept_def setupServiceServerSubscriber_def Let_def setSubscribeSize_def
      dest!: get_service_fields split: option.splits sum.splits)

lemma kept_setupServiceClientPublisher: "kept s (snd (setupServiceClientPublisher r d s))"
  by (auto simp: kept_def setupServiceClientPublisher_def Let_def setPublishSize_def
      dest!: get_service_fields split: option.splits sum.splits)

lemma kept_setupServiceClientSubscriber: "kept s (snd (setupServiceClientSubscriber r d s))"
  by (auto simp: kept_def setupServiceClientSubscriber_def Let_def setSubscribeSize_def
      dest!: get_service_fields split: option.splits sum.splits)

lemma kept_setupPublisher: "kept s (setupPublisher r d s)"
  by (simp add: kept_def setupPublisher_out)

lemma kept_setupSubscriber: "kept s (setupSubscriber r d s)"
  by (simp add: kept_def setupSubscriber_in)

lemma kept_Publisher_handlePacket: "kept s (Publisher_handlePacket r p d s)"
  by (simp add: kept_def Publisher_handlePacket_def)

lemma kept_Service_handlePacket: "kept s (Service_handlePacket r n d s)"
  by (simp add: kept_def Service_handlePacket_def split: option.splits service_kind.splits)

lemma kept_handleTimeRequest: "kept s (handleTimeRequest r d s)"
  by (simp add: kept_def handleTimeRequest_def Time_now_def send_def split: prod.splits)

lemma kept_handleLoggingRequest: "kept s (handleLoggingRequest r d s)"
  by (simp add: kept_def handleLoggingRequest_def split: option.splits prod.splits)

lemma fill_response_fields:
  "fill_response n ps resp s = Inr (resp', s') \<Longrightarrow> kept s s'"
  by (auto simp: fill_response_def kept_def Let_def split: list.splits if_splits)

lemma kept_handleParameterRequest: "kept s (snd (handleParameterRequest r d s))"
  by (auto simp: handleParameterRequest_def Let_def kept_def
      dest!: fill_response_fields
      split: option.splits param.splits sum.splits)

lemma kept_call_handler: "kept s (snd (call_handler r h d s))"
  by (cases h)
     (simp_all add: kept_setupPublisher kept_setupSubscriber kept_setupServiceServerPublisher
       kept_setupServiceServerSubscriber kept_setupServiceClientPublisher
       kept_setupServiceClientSubscriber kept_handleParameterRequest
       kept_handleLoggingRequest kept_handleTimeRequest kept_Publisher_handlePacket
       kept_Service_handlePacket)

lemma call_handler_raises:
  "fst (call_handler r h d s) = Raised x \<Longrightarrow> x = IndexError \<or> x = StructError"
  by (cases h)
     (auto simp: setupServiceServerPublisher_def setupServiceServerSubscriber_def
       setupServiceClientPublisher_def setupServiceClientSubscriber_def
       handleParameterRequest_def fill_response_def Let_def
       split: option.splits sum.splits param.splits list.splits if_splits)


lemma frame_in_suffix: "frame_in port' t p \<Longrightarrow> frame_in (pre @ port') t p"
  unfolding frame_in_def
  apply (elim exE conjE)
  subgoal for pre' l0 l1 cl t0 t1 cp post
    by (rule exI[of _ "pre @ pre'"]) auto
  done

lemma byte_bound: "uint (b::byte) < 256"
  using uint_lt2p[of b] by simp

lemma unpack_h_nonneg: "0 \<le> unpack_h lo hi \<Longrightarrow> unpack_h lo hi = uint lo + 256 * uint hi"
  using byte_bound[of lo] byte_bound[of hi]
  by (simp add: unpack_h_def Let_def split: if_splits)

lemma read_frame_frame_in:
  assumes "read_frame port = (Message t msg, rest)"
  shows "frame_in port t msg"
proof -
  from read_frame_Message[OF assms] obtain l0 l1 cl t0 t1 cp where
    p: "port = [0xFF, 0xFE, l0, l1, cl, t0, t1] @ msg @ [cp] @ rest"
    and c1: "byte_sum [l0, l1, cl] mod 256 = 255"
    and c2: "byte_sum ([t0, t1] @ msg @ [cp]) mod 256 = 255"
    and ln: "int (length msg) = unpack_h l0 l1"
    and tt: "t = unpack_H t0 t1" by blast
  have "0 \<le> unpack_h l0 l1" using ln by linarith
  then have ln': "int (length msg) = uint l0 + 256 * uint l1"
    using ln unpack_h_nonneg by simp
  have c1': "(uint l0 + uint l1 + uint cl) mod 256 = 255"
    using c1 by (simp add: byte_sum_def add.assoc)
  have "byte_sum ([t0, t1] @ msg @ [cp]) = uint t0 + uint t1 + byte_sum msg + uint cp"
    by (simp add: byte_sum_def)
  then have c2': "(uint t0 + uint t1 + byte_sum msg + uint cp) mod 256 = 255"
    using c2 by simp
  show ?thesis
    unfolding frame_in_def
    apply (rule exI[of _ "[]"])
    using p c1' c2' ln' tt by (auto simp: unpack_H_def)
qed

lemma read_frame_suffix: "read_frame port = (d, rest) \<Longrightarrow> \<exists>pre. port = pre @ rest"
proof -
  have t: "\<And>n p x q. tryRead n p = (x, q) \<Longrightarrow> \<exists>pre. p = pre @ q"
    by (auto simp: tryRead_def split: if_splits) (metis append_take_drop_id)
  assume "read_frame port = (d, rest)"
  then show ?thesis
    unfolding read_frame_def
    by (auto simp: Let_def split: prod.splits sum.splits if_splits dest!: t)
qed


lemma advances_refl: "advances s s"
  by (simp add: advances_def)

lemma advances_trans: "advances s s1 \<Longrightarrow> advances s1 s2 \<Longrightarrow> advances s s2"
  unfolding advances_def
  apply (elim conjE exE)
  apply (intro conjI)
      apply simp
     apply (metis append.assoc)
  subgoal for pre pre' new new'
    apply (rule exI[of _ "new @ new'"])
    apply (auto intro: frame_in_suffix)
    done
   apply simp
  apply simp
  done

lemma kept_advances: "kept s s' \<Longrightarrow> advances s s'"
  by (simp add: kept_def advances_def)

lemma flush_advances: "port_in s' = drop n (port_in s) \<Longrightarrow> synced s' = synced s \<Longrightarrow>
   called s' = called s \<Longrightarrow> buffer_out s' = buffer_out s \<Longrightarrow> buffer_in s' = buffer_in s \<Longrightarrow> advances s s'"
  unfolding advances_def by (auto intro: exI[of _ "take n (port_in s)"])

lemma requestTopics_port: "port_in (requestTopics n s) = port_in s \<or> port_in (requestTopics n s) = drop n (port_in s)"
  by (simp add: requestTopics_def flushInput_def Let_def rospy_log_def)

lemma requestTopics_advances: "advances s (requestTopics n s)"
  using requestTopics_port[of n s]
  by (auto simp: advances_def intro: exI[of _ "take n (port_in s)"])

lemma txStopRequest_advances: "advances s (txStopRequest n s)"
proof -
  have "port_in (txStopRequest n s) = port_in s \<or> port_in (txStopRequest n s) = drop n (port_in s)"
    by (simp add: txStopRequest_def flushInput_def Let_def rospy_log_def)
  then show ?thesis
    by (auto simp: advances_def intro: exI[of _ "take n (port_in s)"])
qed

lemma sync_check_fields [simp]:
  "synced (snd (sync_check n s)) = synced s"
  "called (snd (sync_check n s)) = called s"
  "buffer_out (snd (sync_check n s)) = buffer_out s"
  "buffer_in (snd (sync_check n s)) = buffer_in s"
  by (simp_all add: sync_check_def Time_now_def sendDiagnostics_def requestTopics_def
      flushInput_def rospy_log_def Let_def)

lemma sync_check_port:
  "port_in (snd (sync_check n s)) = port_in s \<or> port_in (snd (sync_check n s)) = drop n (port_in s)"
  by (simp add: sync_check_def Time_now_def sendDiagnostics_def requestTopics_def
      flushInput_def rospy_log_def Let_def)

lemma sync_check_advances: "advances s (snd (sync_check n s))"
  using sync_check_port[of n s]
  by (auto simp: advances_def intro: exI[of _ "take n (port_in s)"])

lemma unknown_topic_advances: "advances s (snd (unknown_topic n t s))"
proof -
  have "advances s (rospy_log ERROR ''Tried to publish before configured, topic id %d'' [AInt t] s)"
    by (simp add: advances_def)
  then show ?thesis
    unfolding unknown_topic_def using requestTopics_advances advances_trans by fastforce
qed

lemma io_error_return_advances: "advances s (snd (io_error_return step s))"
  by (simp add: io_error_return_def advances_def)

lemma protocol_mismatch_advances: "advances s (snd (protocol_mismatch f s))"
  by (simp add: protocol_mismatch_def advances_def Let_def split: option.splits)

lemma call_handler_advances: "advances s (snd (call_handler r h d s))"
  by (rule kept_advances) (rule kept_call_handler)

lemma dispatch_advances:
  assumes "frame_in (port_in s) t m"
  shows "advances s (snd (dispatch r e t m s))"
proof (cases "callbacks s t")
  case None
  then show ?thesis by (simp add: dispatch_def unknown_topic_advances)
next
  case (Some h)
  let ?s0 = "s\<lparr>called := called s @ [(t, m)]\<rparr>"
  have a0: "advances s ?s0" using assms by (simp add: advances_def)
  obtain c s1 where ch: "call_handler r h m ?s0 = (c, s1)" by (cases "call_handler r h m ?s0")
  have a1: "advances ?s0 s1" using call_handler_advances[of ?s0 r h m] ch by simp
  have a: "advances s s1" using a0 a1 by (rule advances_trans)
  show ?thesis
  proof (cases c)
    case Normal
    then show ?thesis using Some ch a by (simp add: dispatch_def)
  next
    case Blocked
    then show ?thesis using Some ch a by (simp add: dispatch_def)
  next
    case (Raised x)
    have "advances s1 (snd (unknown_topic (flushed_unknown e) t s1))" by (rule unknown_topic_advances)
    moreover have "advances s1 (snd (io_error_return ''data checksum'' s1))" by (rule io_error_return_advances)
    ultimately show ?thesis using Some ch a Raised
      by (auto simp: dispatch_def intro: advances_trans)
  qed
qed

lemma note_read_advances: "advances s (note_read b s)"
  by (simp add: note_read_def advances_def Time_now_def)

lemma read_and_dispatch_advances: "advances s (snd (read_and_dispatch r e s))"
proof (cases "lock_acquired e \<and> \<not> in_waiting e < 1")
  case False
  then show ?thesis by (auto simp: read_and_dispatch_def advances_refl)
next
  case True
  obtain d rest where rf: "read_frame (port_in s) = (d, rest)" by (cases "read_frame (port_in s)")
  let ?s0 = "note_read (port_in s) (s\<lparr>port_in := rest\<rparr>)"
  from read_frame_suffix[OF rf] obtain pre where pre: "port_in s = pre @ rest" by blast
  have a0: "advances s ?s0"
    using pre by (simp add: advances_def note_read_def Time_now_def)
  have body: "read_and_dispatch r e s =
    (case d of
              ReadFailed step \<Rightarrow> io_error_return step ?s0
            | DataReadFailed n \<Rightarrow>
                io_error_return ''data''
                  (rospy_log INFO ''%s'' [AExn IOError]
                    (rospy_log INFO ''expected msg length is %d'' [AInt n]
                      (rospy_log INFO ''Packet Failed :  Failed to read msg data'' []
                        (sendDiagnostics ERROR ERROR_PACKET_FAILED ?s0))))
            | NotHeader \<Rightarrow> (Continue, ?s0)
            | Mismatched flag1 \<Rightarrow> protocol_mismatch flag1 ?s0
            | WrongLengthChecksum n \<Rightarrow>
                (Continue, rospy_log INFO
                   ''Wrong checksum for msg length, length %d, dropping message.'' [AInt n] ?s0)
            | WrongChecksum \<Rightarrow>
                (Continue, rospy_log INFO ''wrong checksum for topic id and msg'' [] ?s0)
            | Message topic msg \<Rightarrow>
                (case Time_now (?s0\<lparr>synced := True\<rparr>) of
                   (t, s1) \<Rightarrow> dispatch r e topic msg (s1\<lparr>lastsync_success := t\<rparr>)))"
    using True rf by (simp add: read_and_dispatch_def Let_def)
  show ?thesis
  proof (cases d)
    case NotHeader
    then show ?thesis using body a0 by simp
  next
    case (Mismatched f)
    then show ?thesis using body a0 protocol_mismatch_advances[of ?s0 f]
      by (auto intro: advances_trans)
  next
    case (WrongLengthChecksum n)
    have "advances ?s0 (rospy_log INFO
                   ''Wrong checksum for msg length, length %d, dropping message.'' [AInt n] ?s0)"
      by (simp add: advances_def)
    then show ?thesis using body a0 WrongLengthChecksum by (auto intro: advances_trans)
  next
    case WrongChecksum
    have "advances ?s0 (rospy_log INFO ''wrong checksum for topic id and msg'' [] ?s0)"
      by (simp add: advances_def)
    then show ?thesis using body a0 WrongChecksum by (auto intro: advances_trans)
  next
    case (ReadFailed step)
    then show ?thesis using body a0 io_error_return_advances[of ?s0 step]
      by (auto intro: advances_trans)
  next
    case (DataReadFailed n)
    let ?s1 = "(rospy_log INFO ''%s'' [AExn IOError]
                    (rospy_log INFO ''expected msg length is %d'' [AInt n]
                      (rospy_log INFO ''Packet Failed :  Failed to read msg data'' []
                        (sendDiagnostics ERROR ERROR_PACKET_FAILED ?s0))))"
    have "advances ?s0 ?s1" by (simp add: advances_def)
    moreover have "advances ?s1 (snd (io_error_return ''data'' ?s1))" by (rule io_error_return_advances)
    ultimately have "advances s (snd (io_error_return ''data'' ?s1))"
      using a0 by (blast intro: advances_trans)
    then show ?thesis using body DataReadFailed by simp
  next
    case (Message topic msg)
    have fi: "frame_in (port_in s) topic msg"
      using rf Message read_frame_frame_in by simp
    let ?s1 = "(snd (Time_now (?s0\<lparr>synced := True\<rparr>)))\<lparr>lastsync_success := fst (Time_now (?s0\<lparr>synced := True\<rparr>))\<rparr>"
    have a1: "advances s ?s1"
      using pre by (simp add: advances_def note_read_def Time_now_def)
    have b: "read_and_dispatch r e s = dispatch r e topic msg ?s1"
      using body Message by (simp add: split_beta)
    show ?thesis
    proof (cases "callbacks ?s1 topic")
      case None
      then show ?thesis using b a1 unknown_topic_advances[of ?s1]
        by (auto simp: dispatch_def intro: advances_trans)
    next
      case (Some h)
      let ?s2 = "?s1\<lparr>called := called ?s1 @ [(topic, msg)]\<rparr>"
      have a2: "advances s ?s2"
        using pre fi by (simp add: advances_def note_read_def Time_now_def)
      obtain c s3 where ch: "call_handler r h msg ?s2 = (c, s3)" by (cases "call_handler r h msg ?s2")
      have "advances ?s2 s3" using call_handler_advances[of ?s2 r h msg] ch by simp
      then have a3: "advances s s3" using a2 by (blast intro: advances_trans)
      have "advances s3 (snd (unknown_topic (flushed_unknown e) topic s3))" by (rule unknown_topic_advances)
      moreover have "advances s3 (snd (io_error_return ''data checksum'' s3))" by (rule io_error_return_advances)
      ultimately show ?thesis using b Some ch a3
        by (cases c) (auto simp: dispatch_def intro: advances_trans)
    qed
  qed
qed

lemma run_iter_advances: "advances s (snd (run_iter r e s))"
proof -
  have "advances s (snd (sync_check (flushed_sync e) s))" by (rule sync_check_advances)
  moreover have "advances (snd (sync_check (flushed_sync e) s)) (snd (read_and_dispatch r e (snd (sync_check (flushed_sync e) s))))"
    by (rule read_and_dispatch_advances)
  ultimately show ?thesis
    by (auto simp: run_iter_def advances_refl split: prod.splits bool.splits intro: advances_trans)
qed

lemma run_advances: "advances s (snd (run r es s))"
proof (induction es arbitrary: s)
  case Nil
  then show ?case by (simp add: advances_refl)
next
  case (Cons e es)
  obtain out s1 where ri: "run_iter r e s = (out, s1)" by (cases "run_iter r e s")
  have a1: "advances s s1" using run_iter_advances[of s r e] ri by simp
  show ?case
  proof (cases "out = Continue")
    case True
    then show ?thesis using ri a1 Cons.IH[of s1] by (auto intro: advances_trans)
  next
    case False
    then show ?thesis using ri a1 by simp
  qed
qed


end
